theory Spec2Isabelle
  imports Main "HOL-Library.Sublist"
begin

section \<open>Strings\<close>

text \<open>
  A JavaScript string is a sequence of UTF-16 code units, and every string operation of
  the program (\<^verbatim>\<open>split\<close>, \<^verbatim>\<open>slice\<close>, \<^verbatim>\<open>trim\<close>, the regular
  expressions of the \<^verbatim>\<open>dedent\<close> tag) counts code units. A string is therefore
  modelled as a list of code units. \<open>js\<close> turns an ASCII literal into such a
  list; a code unit that cannot be written inside a literal (the backslash \<open>0x5C\<close>, a
  quote \<open>0x27\<close> at the edge of a literal, everything beyond ASCII) is given by its number.
\<close>

type_synonym jsstring = "nat list"

definition js :: "string \<Rightarrow> jsstring" where
  "js s = map of_char s"

text \<open>\<^verbatim>\<open>lines.join("\n")\<close>; the source text of a template is written with it, one
  element per source line.\<close>

fun join_nl :: "jsstring list \<Rightarrow> jsstring" where
  "join_nl [] = []"
| "join_nl [l] = l"
| "join_nl (l # ls) = l @ 10 # join_nl ls"

text \<open>\<^verbatim>\<open>result.split("\n")\<close>: the empty string splits into one empty line.\<close>

fun split_nl :: "jsstring \<Rightarrow> jsstring list" where
  "split_nl [] = [[]]"
| "split_nl (c # cs) =
     (if c = 10 then [] # split_nl cs
      else (case split_nl cs of [] \<Rightarrow> [[c]] | l # ls \<Rightarrow> (c # l) # ls))"

text \<open>
  The code units that the regular-expression class \<^verbatim>\<open>\s\<close> matches and that
  \<^verbatim>\<open>String.prototype.trim\<close> removes: the ECMAScript white space and line
  terminator code points.
\<close>

definition is_js_whitespace :: "nat \<Rightarrow> bool" where
  "is_js_whitespace c \<longleftrightarrow>
     c \<in> set [0x9, 0xA, 0xB, 0xC, 0xD, 0x20, 0xA0, 0x1680, 0x2028, 0x2029, 0x202F, 0x205F,
              0x3000, 0xFEFF]
     \<or> (0x2000 \<le> c \<and> c \<le> 0x200A)"

definition trim :: "jsstring \<Rightarrow> jsstring" where
  "trim s = rev (dropWhile is_js_whitespace (rev (dropWhile is_js_whitespace s)))"

section \<open>The dedent tag\<close>

text \<open>
  Every template of the program is a template literal tagged with \<^verbatim>\<open>dedent\<close>,
  the default export of the npm package of that name. The package is imported, its
  source is not part of the repository; the definitions below follow the function
  \<^verbatim>\<open>dedent(strings, ...values)\<close> of the package (version 1, as it is up to 1.7.1)
  called as a tag, step by step:
  \<^verbatim>\<open>
    const raw = strings.raw
    let result = ""
    for (let i = 0; i < raw.length; i++) {
      let next = raw[i]
      next = next.replace(/\\\n[ \t]*/g, "").replace(/\\`/g, "`")
                 .replace(/\\\$/g, "$").replace(/\\\{/g, "{")
      result += next
      if (i < values.length) result += values[i]
    }
    const lines = result.split("\n")
    let mindent = null
    for (const l of lines) {
      const m = l.match(/^(\s+)\S+/)
      if (m) {
        const indent = m[1].length
        if (!mindent) mindent = indent
        else mindent = Math.min(mindent, indent)
      }
    }
    if (mindent !== null) {
      const m = mindent
      result = lines.map((l) => (l[0] === " " || l[0] === "\t" ? l.slice(m) : l)).join("\n")
    }
    result = result.trim()
    result = result.replace(/\\n/g, "\n")
    return result
  \<close>
  The first argument is the list of the raw texts between the substitutions, the second
  the substituted values, already evaluated. The import does not pin a version. Later
  versions of the package decode more backslash escapes in the result than the
  \<^verbatim>\<open>\n\<close> of the last step; the two agree on every text that holds no backslash
  after the unescaping of the loop, which is the case of the six templates of the program
  and of every configuration value without a backslash.
\<close>

text \<open>\<^verbatim>\<open>s.replace(/\\c/g, r)\<close> for a code unit \<open>c\<close>: scanning from the left, a
  backslash followed by \<open>c\<close> becomes \<open>r\<close>.\<close>

fun replace_backslash :: "nat \<Rightarrow> jsstring \<Rightarrow> jsstring \<Rightarrow> jsstring" where
  "replace_backslash c r (a # b # xs) =
     (if a = 0x5C \<and> b = c then r @ replace_backslash c r xs
      else a # replace_backslash c r (b # xs))"
| "replace_backslash c r xs = xs"

text \<open>\<^verbatim>\<open>s.replace(/\\\n[ \t]*/g, "")\<close>: a backslash at the end of a line, the line
  break and the blanks and tabs that follow it are removed.\<close>

function drop_continuations :: "jsstring \<Rightarrow> jsstring" where
  "drop_continuations (a # b # xs) =
     (if a = 0x5C \<and> b = 10 then drop_continuations (dropWhile (\<lambda>c. c = 0x20 \<or> c = 0x9) xs)
      else a # drop_continuations (b # xs))"
| "drop_continuations [a] = [a]"
| "drop_continuations [] = []"
  by pat_completeness auto
termination
proof (relation "measure length")
  fix a b :: nat and xs :: jsstring
  have "length (dropWhile (\<lambda>c. c = 0x20 \<or> c = 0x9) xs) \<le> length xs"
    by (rule length_dropWhile_le)
  then show "(dropWhile (\<lambda>c. c = 0x20 \<or> c = 0x9) xs, a # b # xs) \<in> measure length"
    by simp
qed simp_all

definition unescape :: "jsstring \<Rightarrow> jsstring" where
  "unescape next =
     replace_backslash 0x7B [0x7B]
       (replace_backslash 0x24 [0x24]
         (replace_backslash 0x60 [0x60] (drop_continuations next)))"

fun interpolate :: "jsstring list \<Rightarrow> jsstring list \<Rightarrow> jsstring" where
  "interpolate [] values = []"
| "interpolate (next # raw) [] = unescape next @ interpolate raw []"
| "interpolate (next # raw) (v # values) = unescape next @ v @ interpolate raw values"

text \<open>\<^verbatim>\<open>l.match(/^(\s+)\S+/)\<close>: a line matches when it starts with white space that
  is followed by something else; the group is the whole leading white space.\<close>

definition line_indent :: "jsstring \<Rightarrow> nat option" where
  "line_indent l =
     (let indent = length (takeWhile is_js_whitespace l)
      in if 0 < indent \<and> indent < length l then Some indent else None)"

text \<open>The loop over the lines; \<^verbatim>\<open>!mindent\<close> holds for \<^verbatim>\<open>null\<close> only, since a
  matched indentation is at least 1.\<close>

fun mindent :: "nat option \<Rightarrow> jsstring list \<Rightarrow> nat option" where
  "mindent m [] = m"
| "mindent m (l # ls) =
     mindent (case line_indent l of
                None \<Rightarrow> m
              | Some indent \<Rightarrow> (case m of None \<Rightarrow> Some indent | Some k \<Rightarrow> Some (min k indent))) ls"

definition strip_indent :: "nat \<Rightarrow> jsstring \<Rightarrow> jsstring" where
  "strip_indent m l =
     (case l of [] \<Rightarrow> l | c # _ \<Rightarrow> if c = 0x20 \<or> c = 0x9 then drop m l else l)"

definition dedent :: "jsstring list \<Rightarrow> jsstring list \<Rightarrow> jsstring" where
  "dedent raw values =
     (let result = interpolate raw values;
          lines = split_nl result;
          result = (case mindent None lines of
                      None \<Rightarrow> result
                    | Some m \<Rightarrow> join_nl (map (strip_indent m) lines))
      in replace_backslash 0x6E [10] (trim result))"

section \<open>The templates\<close>

record EnvConfig =
  projectName :: jsstring
  wpVersion :: jsstring
  wpPort :: jsstring
  wpPlugins :: jsstring

text \<open>The usage text that \<^verbatim>\<open>showHelp\<close> prints.\<close>

definition helpText :: jsstring where
  \<open>helpText =
     dedent
       [join_nl
          [[],
           js ''        WP-Pon: A tool to quickly set up a WordPress development environment.'',
           [],
           js ''        Usage:'',
           js ''          deno run --allow-all main.ts [directory] [options]'',
           [],
           js ''        Description:'',
           js ''          This script interactively sets up a Docker-based WordPress environment.'',
           js ''          It generates docker-compose.yml, .env, and other necessary configuration files.'',
           [],
           js ''        Arguments:'',
           js ''          [directory]         The directory to create the project in. Defaults to the current directory.'',
           [],
           js ''        Options:'',
           js ''          -h, --help                Show this help message.'',
           js ''          -n, --name <name> Set the project name. Defaults to the directory name.'',
           js ''          -v, --version <version>   Set the WordPress version (e.g., "latest", "6.4"). Defaults to "latest".'',
           js ''          -p, --port <port>         Set the public port for WordPress. Defaults to "8080".'',
           js ''          -e, --plugins <slugs>     A space-separated string of plugin slugs to install (e.g., "query-monitor advanced-custom-fields").'',
           js ''    '']]
       []\<close>

definition createDotEnvTemplate :: "'a EnvConfig_scheme \<Rightarrow> jsstring" where
  \<open>createDotEnvTemplate config =
     dedent
       [join_nl
          [[],
           js ''    # .env'',
           [],
           js ''    # Project Settings'',
           js ''    PROJECT_NAME=''],
        join_nl
          [[],
           [],
           js ''    # WordPress Settings'',
           js ''    WP_VERSION=''],
        join_nl
          [[],
           js ''    WP_PORT=''],
        join_nl
          [[],
           js ''    WP_PLUGINS="''],
        join_nl
           [js ''"'',
           [],
           js ''    # Database Settings'',
           js ''    MYSQL_DATABASE=wordpress'',
           js ''    MYSQL_USER=wordpress'',
           js ''    MYSQL_PASSWORD=your_strong_password'',
           js ''    MYSQL_ROOT_PASSWORD=your_strong_root_password'',
           js ''  '']]
       [projectName config, wpVersion config, wpPort config, wpPlugins config]\<close>

text \<open>The older variant of the program, \<^verbatim>\<open>src/main.ts\<close>, has its own
  \<^verbatim>\<open>createDotEnvTemplate\<close>.\<close>

definition main_ts_createDotEnvTemplate :: "'a EnvConfig_scheme \<Rightarrow> jsstring" where
  \<open>main_ts_createDotEnvTemplate config =
     dedent
       [join_nl
          [[],
           js ''    # .env'',
           [],
           js ''    # Project Settings'',
           js ''    PROJECT_NAME=''],
        join_nl
          [[],
           [],
           js ''    # WordPress Settings'',
           js ''    WP_VERSION=''],
        join_nl
          [[],
           js ''    WP_PORT=''],
        join_nl
          [[],
           js ''    WP_PLUGINS="''],
        join_nl
           [js ''"'',
           [],
           js ''    # Database Settings'',
           js ''    MYSQL_DATABASE=wordpress'',
           js ''    MYSQL_USER=wordpress'',
           js ''    MYSQL_PASSWORD=your_strong_password'',
           js ''    MYSQL_ROOT_PASSWORD=your_strong_root_password'',
           js ''  '']]
       [projectName config, wpVersion config, wpPort config, wpPlugins config]\<close>

text \<open>The other four templates have no substitution: every \<^verbatim>\<open>${\<close> of their
  source is escaped by a backslash, so each is one raw text and no value.\<close>

definition dockerComposeTemplate :: jsstring where
  \<open>dockerComposeTemplate =
     dedent
       [join_nl
          [[],
           js ''  name: '' @ [0x27, 0x5C] @ js ''${PROJECT_NAME}'' @ [0x27],
           [],
           js ''  services:'',
           js ''    db:'',
           js ''      image: mysql:8.0'',
           js ''      container_name: '' @ [0x5C] @ js ''${PROJECT_NAME}-db'',
           js ''      restart: always'',
           js ''      environment:'',
           js ''        MYSQL_ROOT_PASSWORD: '' @ [0x5C] @ js ''${MYSQL_ROOT_PASSWORD}'',
           js ''        MYSQL_DATABASE: '' @ [0x5C] @ js ''${MYSQL_DATABASE}'',
           js ''        MYSQL_USER: '' @ [0x5C] @ js ''${MYSQL_USER}'',
           js ''        MYSQL_PASSWORD: '' @ [0x5C] @ js ''${MYSQL_PASSWORD}'',
           js ''      volumes:'',
           js ''        - db_data:/var/lib/mysql'',
           js ''      networks:'',
           js ''        - wordpress_net'',
           [],
           js ''    wordpress:'',
           js ''      image: wordpress:'' @ [0x5C] @ js ''${WP_VERSION:-latest}'',
           js ''      container_name: '' @ [0x5C] @ js ''${PROJECT_NAME}-wordpress'',
           js ''      restart: always'',
           js ''      depends_on:'',
           js ''        - db'',
           js ''      ports:'',
           js ''        - "'' @ [0x5C] @ js ''${WP_PORT:-8080}:80"'',
           js ''      environment:'',
           js ''        WORDPRESS_DB_HOST: db:3306'',
           js ''        WORDPRESS_DB_USER: '' @ [0x5C] @ js ''${MYSQL_USER}'',
           js ''        WORDPRESS_DB_PASSWORD: '' @ [0x5C] @ js ''${MYSQL_PASSWORD}'',
           js ''        WORDPRESS_DB_NAME: '' @ [0x5C] @ js ''${MYSQL_DATABASE}'',
           js ''        WORDPRESS_TABLE_PREFIX: wp_'',
           js ''        WP_PLUGINS: '' @ [0x5C] @ js ''${WP_PLUGINS}'',
           js ''      volumes:'',
           js ''        - wp_data:/var/www/html'',
           js ''        - ./src:/var/www/html/wp-content/themes/current'',
           js ''        - ./.pon/init-plugins.sh:/docker-entrypoint-initwp.d/init-plugins.sh'',
           js ''        - ./.pon/uploads.ini:/usr/local/etc/php/conf.d/uploads.ini'',
           js ''        - ./.pon/timeouts.conf:/etc/apache2/conf-enabled/timeouts.conf'',
           js ''      networks:'',
           js ''        - wordpress_net'',
           [],
           js ''  volumes:'',
           js ''    db_data:'',
           js ''    wp_data:'',
           [],
           js ''  networks:'',
           js ''    wordpress_net:'',
           js ''      name: '' @ [0x27, 0x5C] @ js ''${PROJECT_NAME}_net'' @ [0x27],
           []]]
       []\<close>

definition initPluginsScriptTemplate :: jsstring where
  \<open>initPluginsScriptTemplate =
     dedent
       [join_nl
          [[],
           js ''  #!/bin/bash'',
           js ''  # init-plugins.sh'',
           js ''  set -e'',
           js ''  read -r -a PLUGINS_TO_INSTALL <<< "'' @ [0x5C] @ js ''${WP_PLUGINS:-}"'',
           js ''  PLUGIN_DIR="/var/www/html/wp-content/plugins"'',
           js ''  for plugin_slug in "'' @ [0x5C] @ js ''${PLUGINS_TO_INSTALL[@]}"; do'',
           js ''    if [ -n "'' @ [0x5C] @ js ''$plugin_slug" ]; then'',
           js ''      if [ ! -d "'' @ [0x5C] @ js ''$PLUGIN_DIR/'' @ [0x5C] @ js ''$plugin_slug" ]; then'',
           js ''        echo ">>> Installing plugin: '' @ [0x5C] @ js ''$plugin_slug"'',
           js ''        wget -q -O "/tmp/'' @ [0x5C] @ js ''$plugin_slug.zip" "https://downloads.wordpress.org/plugin/'' @ [0x5C] @ js ''$plugin_slug.latest-stable.zip"'',
           js ''        if [ '' @ [0x5C] @ js ''$? -eq 0 ]; then'',
           js ''          unzip -q "/tmp/'' @ [0x5C] @ js ''$plugin_slug.zip" -d "'' @ [0x5C] @ js ''$PLUGIN_DIR"'',
           js ''          rm "/tmp/'' @ [0x5C] @ js ''$plugin_slug.zip"'',
           js ''          echo ">>> Plugin '' @ [0x5C] @ js ''$plugin_slug installed successfully."'',
           js ''        else'',
           js ''          echo ">>> Failed to download plugin: '' @ [0x5C] @ js ''$plugin_slug"'',
           js ''        fi'',
           js ''      else'',
           js ''        echo ">>> Plugin '' @ [0x5C] @ js ''$plugin_slug is already installed."'',
           js ''      fi'',
           js ''    fi'',
           js ''  done'',
           js ''  echo ">>> All specified plugins have been processed."'',
           []]]
       []\<close>

definition uploadsIniTemplate :: jsstring where
  \<open>uploadsIniTemplate =
     dedent
       [join_nl
          [[],
           js ''  ; PHP'' @ [0x8A2D, 0x5B9A] @ js '': '' @ [0x30D5, 0x30A1, 0x30A4, 0x30EB, 0x30A2, 0x30C3, 0x30D7, 0x30ED, 0x30FC, 0x30C9, 0x3068, 0x5B9F, 0x884C, 0x6642, 0x9593, 0x5236, 0x9650, 0x306E, 0x7DE9, 0x548C],
           js ''  ; '' @ [0x3053, 0x306E, 0x30D5, 0x30A1, 0x30A4, 0x30EB, 0x306F] @ js ''docker-compose.yml'' @ [0x306B, 0x3088, 0x3063, 0x3066, 0x30B3, 0x30F3, 0x30C6, 0x30CA, 0x5185, 0x306B, 0x30DE, 0x30A6, 0x30F3, 0x30C8, 0x3055, 0x308C, 0x307E, 0x3059],
           [],
           js ''  file_uploads = On'',
           [],
           js ''  ; '' @ [0x30A2, 0x30C3, 0x30D7, 0x30ED, 0x30FC, 0x30C9, 0x30D5, 0x30A1, 0x30A4, 0x30EB, 0x30B5, 0x30A4, 0x30BA, 0x306E, 0x4E0A, 0x9650] @ js '' (1TB)'',
           js ''  ; PHP'' @ [0x306E] @ js ''ini'' @ [0x8A2D, 0x5B9A, 0x3067, 0x306F, 0x27] @ js ''T'' @ [0x27, 0x304C, 0x4F7F, 0x3048, 0x306A, 0x3044, 0x5834, 0x5408, 0x304C, 0x591A, 0x3044, 0x305F, 0x3081, 0x3001] @ js ''1024G'' @ [0x3068, 0x8A18, 0x8FF0, 0x3059, 0x308B, 0x306E, 0x304C, 0x5B89, 0x5168, 0x3067, 0x3059],
           js ''  upload_max_filesize = 1024G'',
           [],
           js ''  ; POST'' @ [0x30C7, 0x30FC, 0x30BF, 0x5168, 0x4F53, 0x306E, 0x4E0A, 0x9650],
           js ''  post_max_size = 1024G'',
           [],
           js ''  ; '' @ [0x30B9, 0x30AF, 0x30EA, 0x30D7, 0x30C8, 0x306E, 0x6700, 0x5927, 0x5B9F, 0x884C, 0x6642, 0x9593, 0xFF08, 0x79D2, 0xFF09],
           js ''  max_execution_time = 3600'',
           [],
           js ''  ; POST'' @ [0x30C7, 0x30FC, 0x30BF, 0x30D1, 0x30FC, 0x30B9, 0x306E, 0x6700, 0x5927, 0x6642, 0x9593, 0xFF08, 0x79D2, 0xFF09],
           js ''  max_input_time = -1'',
           [],
           js ''  ; PHP'' @ [0x304C, 0x4F7F, 0x7528, 0x3067, 0x304D, 0x308B, 0x30E1, 0x30E2, 0x30EA, 0x4E0A, 0x9650],
           js ''  ; '' @ [0x5DE8, 0x5927, 0x306A, 0x30D5, 0x30A1, 0x30A4, 0x30EB, 0x3092, 0x6271, 0x3046, 0x969B, 0x306F, 0x30E1, 0x30E2, 0x30EA, 0x3082, 0x591A, 0x304F, 0x6D88, 0x8CBB, 0x3059, 0x308B, 0x305F, 0x3081, 0x3001, 0x7121, 0x5236, 0x9650, 0x306B, 0x3057, 0x3066, 0x304A, 0x304F, 0x3068, 0x5B89, 0x5FC3, 0x3067, 0x3059],
           js ''  memory_limit = -1'',
           []]]
       []\<close>

definition timeoutsConfTemplate :: jsstring where
  \<open>timeoutsConfTemplate =
     dedent
       [join_nl
          [[],
           js ''  # Don't limit body.'',
           js ''  LimitRequestBody 0'',
           [],
           js ''  # Don't limit execution time.'',
           js ''  TimeOut 3600'',
           [],
           js ''  # '',
           js ''  RequestReadTimeout header=0 body=0'',
           []]]
       []\<close>

section \<open>The world outside the program\<close>

text \<open>
  The program talks to a terminal, a file system and the \<^verbatim>\<open>chmod\<close> command, and it
  calls the path functions of \<^verbatim>\<open>jsr:@std/path\<close>. None of that is code of the
  repository. A \<open>world\<close> holds what these calls answer during one run; the program is a
  function of the world and of the parsed arguments.

  \<^item> \<open>prompt w message dflt\<close> is what \<^verbatim>\<open>prompt(message, dflt)\<close> returns:
    an answer, or \<^verbatim>\<open>null\<close> (\<open>None\<close>) when no terminal is attached.
  \<^item> \<open>Deno_mkdir\<close> and \<open>Deno_writeTextFile\<close> answer \<open>None\<close> when the call succeeds
    and the error that the call throws otherwise.
  \<^item> \<open>write_settles_at w path\<close> is the moment at which the write to \<open>path\<close> settles,
    with its success or its failure; the program has no say in it.
  \<^item> \<open>Deno_Command_output w cmd args\<close> is the outcome of
    \<^verbatim>\<open>new Deno.Command(cmd, {args}).output()\<close>: the error thrown when the command cannot
    be started, or the exit code and the decoded standard error.

  An error value is represented by its message.
\<close>

type_synonym js_error = jsstring

record world =
  Deno_cwd :: jsstring
  path_resolve :: "jsstring \<Rightarrow> jsstring"
  path_basename :: "jsstring \<Rightarrow> jsstring"
  path_join :: "jsstring list \<Rightarrow> jsstring"
  path_relative :: "jsstring \<Rightarrow> jsstring \<Rightarrow> jsstring"
  prompt :: "jsstring \<Rightarrow> jsstring \<Rightarrow> jsstring option"
  Deno_mkdir :: "jsstring \<Rightarrow> js_error option"
  Deno_writeTextFile :: "jsstring \<Rightarrow> jsstring \<Rightarrow> js_error option"
  write_settles_at :: "jsstring \<Rightarrow> nat"
  Deno_Command_output :: "jsstring \<Rightarrow> jsstring list \<Rightarrow> js_error + nat \<times> jsstring"

text \<open>What a run does to the outside, in the order in which it does it.\<close>

datatype event =
    ConsoleLog jsstring
  | ConsoleError jsstring js_error
  | Prompt jsstring jsstring
  | Mkdir jsstring
  | WriteTextFile jsstring jsstring
  | Command jsstring "jsstring list"

section \<open>Collecting the configuration\<close>

text \<open>
  The result of \<^verbatim>\<open>parseArgs\<close> with the options of \<^verbatim>\<open>main\<close>:
  \<open>args_positional\<close> is \<^verbatim>\<open>args._\<close> (every entry as \<^verbatim>\<open>toString()\<close> gives it),
  \<open>args_help\<close> is the boolean \<^verbatim>\<open>args.help\<close>, and the four string options are
  \<^verbatim>\<open>undefined\<close> (\<open>None\<close>) when the flag is not on the command line.
\<close>

record Args =
  args_positional :: "jsstring list"
  args_help :: bool
  args_name :: "jsstring option"
  args_version :: "jsstring option"
  args_port :: "jsstring option"
  args_plugins :: "jsstring option"

record UserConfig = EnvConfig +
  projectDir :: jsstring

text \<open>\<^verbatim>\<open>flag ?? prompt(message, dflt) ?? dflt\<close>: the prompt is shown only when the flag
  is missing.\<close>

definition flag_or_prompt ::
  "world \<Rightarrow> jsstring option \<Rightarrow> jsstring \<Rightarrow> jsstring \<Rightarrow> jsstring \<times> event list" where
  "flag_or_prompt w flag message dflt =
     (case flag of
        Some v \<Rightarrow> (v, [])
      | None \<Rightarrow>
          (case prompt w message dflt of
             Some answer \<Rightarrow> (answer, [Prompt message dflt])
           | None \<Rightarrow> (dflt, [Prompt message dflt])))"

definition collectUserConfig :: "world \<Rightarrow> Args \<Rightarrow> UserConfig \<times> event list" where
  "collectUserConfig w args =
     (let dirArg =
            (case args_positional args of
               d # _ \<Rightarrow> d
             | [] \<Rightarrow> (case args_name args of Some n \<Rightarrow> n | None \<Rightarrow> js ''.''));
          projectDir = path_resolve w dirArg;
          defaultProjectName = path_basename w projectDir;
          (projectName, ev1) =
            flag_or_prompt w (args_name args) (js ''Enter project name:'') defaultProjectName;
          (wpVersion, ev2) =
            flag_or_prompt w (args_version args) (js ''Enter WordPress version:'') (js ''latest'');
          (wpPort, ev3) =
            flag_or_prompt w (args_port args) (js ''Enter public port:'') (js ''8080'');
          wpPlugins = (case args_plugins args of Some p \<Rightarrow> p | None \<Rightarrow> [])
      in (\<lparr>projectName = projectName, wpVersion = wpVersion, wpPort = wpPort,
           wpPlugins = wpPlugins, projectDir = projectDir\<rparr>,
          ev1 @ ev2 @ ev3))"

section \<open>Writing the files\<close>

record FileDefinition =
  name :: jsstring
  content :: jsstring

text \<open>The array \<^verbatim>\<open>filesToCreate\<close> of \<^verbatim>\<open>main\<close>.\<close>

definition filesToCreate :: "world \<Rightarrow> UserConfig \<Rightarrow> FileDefinition list" where
  "filesToCreate w userConfig =
     [\<lparr>name = path_join w [projectDir userConfig, js ''.env''],
       content = createDotEnvTemplate userConfig\<rparr>,
      \<lparr>name = path_join w [projectDir userConfig, js ''docker-compose.yml''],
       content = dockerComposeTemplate\<rparr>,
      \<lparr>name = path_join w [projectDir userConfig, js ''.pon'', js ''init-plugins.sh''],
       content = initPluginsScriptTemplate\<rparr>,
      \<lparr>name = path_join w [projectDir userConfig, js ''.pon'', js ''uploads.ini''],
       content = uploadsIniTemplate\<rparr>,
      \<lparr>name = path_join w [projectDir userConfig, js ''.pon'', js ''timeouts.conf''],
       content = timeoutsConfTemplate\<rparr>]"

text \<open>
  \<^verbatim>\<open>createFile\<close> is asynchronous. Calling it starts the write at once; when the
  write settles, the function reports the outcome on the console and returns, or throws
  the error again. A call is therefore a pending promise: the event of the call, the
  moment at which it settles, its outcome (the thrown error, \<open>Inl\<close>, or the value) and
  the report that it prints then.
\<close>

record promise =
  promise_call :: event
  promise_settles_at :: nat
  promise_outcome :: "js_error + unit"
  promise_report :: event

definition createFile :: "world \<Rightarrow> FileDefinition \<Rightarrow> promise" where
  "createFile w file =
     \<lparr>promise_call = WriteTextFile (name file) (content file),
      promise_settles_at = write_settles_at w (name file),
      promise_outcome =
        (case Deno_writeTextFile w (name file) (content file) of
           None \<Rightarrow> Inr ()
         | Some error \<Rightarrow> Inl error),
      promise_report =
        (case Deno_writeTextFile w (name file) (content file) of
           None \<Rightarrow> ConsoleLog ([0x2705] @ js '' Successfully created '' @ name file)
         | Some error \<Rightarrow>
             ConsoleError ([0x274C] @ js '' Failed to create '' @ name file @ js '':'')
               error)\<rparr>"

text \<open>
  \<^verbatim>\<open>await Promise.all(filesToCreate.map(createFile))\<close>: \<^verbatim>\<open>map\<close> makes all the
  calls first, in the order of the list. Then the promises settle in the order of their
  moments (in the order of the calls when two moments are equal), each printing its
  report. \<^verbatim>\<open>Promise.all\<close> throws the error of the first promise that fails, and
  \<^verbatim>\<open>main\<close> then leaves the \<^verbatim>\<open>try\<close> block and exits, so that the promises
  still pending report nothing.
\<close>

fun settle :: "promise list \<Rightarrow> (js_error + unit) \<times> event list" where
  "settle [] = (Inr (), [])"
| "settle (p # ps) =
     (case promise_outcome p of
        Inl error \<Rightarrow> (Inl error, [promise_report p])
      | Inr _ \<Rightarrow> (case settle ps of (r, reports) \<Rightarrow> (r, promise_report p # reports)))"

definition Promise_all :: "promise list \<Rightarrow> (js_error + unit) \<times> event list" where
  "Promise_all ps =
     (case settle (sort_key promise_settles_at ps) of
        (r, reports) \<Rightarrow> (r, map promise_call ps @ reports))"

text \<open>The decimal digits of a number, as \<^verbatim>\<open>${code}\<close> renders an exit code.\<close>

function number_toString :: "nat \<Rightarrow> jsstring" where
  "number_toString n =
     (if n < 10 then [0x30 + n] else number_toString (n div 10) @ [0x30 + n mod 10])"
  by pat_completeness auto
termination
  by (relation "measure id") auto

text \<open>An awaited call that may throw returns the thrown error (\<open>Inl\<close>) or its value,
  together with the events it caused.\<close>

definition setExecutePermission :: "world \<Rightarrow> jsstring \<Rightarrow> (js_error + unit) \<times> event list" where
  "setExecutePermission w filePath =
     (let started =
            [ConsoleLog ([0x2139, 0xFE0F] @ js '' Setting execute permission for '' @ filePath
               @ js ''...''),
             Command (js ''chmod'') [js ''+x'', filePath]];
          failed = (\<lambda>error.
            (Inl error,
             started @ [ConsoleError ([0x274C] @ js '' Failed to set execute permission:'') error]))
      in case Deno_Command_output w (js ''chmod'') [js ''+x'', filePath] of
           Inl error \<Rightarrow> failed error
         | Inr (code, errorOutput) \<Rightarrow>
             if code \<noteq> 0
             then failed (js ''chmod command failed with code '' @ number_toString code
                    @ js '': '' @ errorOutput)
             else (Inr (),
                   started @ [ConsoleLog ([0x2705] @ js '' Execute permission set successfully.'')]))"

section \<open>The entry point\<close>

definition showHelp :: "event list" where
  "showHelp = [ConsoleLog helpText]"

text \<open>The body of the \<^verbatim>\<open>try\<close> statement of \<^verbatim>\<open>main\<close>.\<close>

definition main_try :: "world \<Rightarrow> Args \<Rightarrow> (js_error + unit) \<times> event list" where
  "main_try w args =
     (let (userConfig, ev_config) = collectUserConfig w args;
          projectDir = projectDir userConfig;
          pon = path_join w [projectDir, js ''.pon''];
          src = path_join w [projectDir, js ''src'']
      in case Deno_mkdir w pon of
           Some error \<Rightarrow> (Inl error, ev_config @ [Mkdir pon])
         | None \<Rightarrow>
        (case Deno_mkdir w src of
           Some error \<Rightarrow> (Inl error, ev_config @ [Mkdir pon, Mkdir src])
         | None \<Rightarrow>
        (case Promise_all (map (createFile w) (filesToCreate w userConfig)) of
           (Inl error, ev_files) \<Rightarrow> (Inl error, ev_config @ [Mkdir pon, Mkdir src] @ ev_files)
         | (Inr _, ev_files) \<Rightarrow>
        (case setExecutePermission w (path_join w [projectDir, js ''.pon'', js ''init-plugins.sh'']) of
           (Inl error, ev_chmod) \<Rightarrow>
             (Inl error, ev_config @ [Mkdir pon, Mkdir src] @ ev_files @ ev_chmod)
         | (Inr _, ev_chmod) \<Rightarrow>
             (let relative = path_relative w (Deno_cwd w) projectDir;
                  relativeDir = (if relative = [] then js ''.'' else relative)
              in (Inr (),
                  ev_config @ [Mkdir pon, Mkdir src] @ ev_files @ ev_chmod @
                  [ConsoleLog ([0xD83C, 0xDF89] @ js '' Environment setup is complete!''),
                   ConsoleLog (js ''Next steps:''),
                   ConsoleLog (js ''   Navigate to your project directory:''),
                   ConsoleLog (js ''   cd '' @ relativeDir),
                   ConsoleLog (js ''   Start the containers in detached mode:''),
                   ConsoleLog (js ''   docker-compose up -d'')]))))))"

text \<open>A run of the program: what it did and the exit code of the process, which is 0
  when \<^verbatim>\<open>main\<close> returns and the argument of \<^verbatim>\<open>Deno.exit\<close> otherwise.\<close>

record run =
  trace :: "event list"
  exit_code :: nat

definition main :: "world \<Rightarrow> Args \<Rightarrow> run" where
  "main w args =
     (if args_help args then \<lparr>trace = showHelp, exit_code = 0\<rparr>
      else
        (let started =
               ConsoleLog ([0xD83D, 0xDE80]
                 @ js '' Starting interactive setup for WordPress environment...'')
         in case main_try w args of
              (Inr _, ev) \<Rightarrow> \<lparr>trace = started # ev, exit_code = 0\<rparr>
            | (Inl error, ev) \<Rightarrow>
                \<lparr>trace = started # ev @
                   [ConsoleError ([0xD83D, 0xDCA5]
                      @ js '' An error occurred during setup. Please check the logs above.'') error],
                 exit_code = 1\<rparr>))"

section \<open>A POSIX machine for the worked examples\<close>

text \<open>
  The worked examples run the program in a concrete world: the path functions behave
  as \<^verbatim>\<open>jsr:@std/path\<close> does on POSIX for absolute directories (segments between
  slashes, \<^verbatim>\<open>.\<close> and empty segments dropped, \<^verbatim>\<open>..\<close> removing the segment before
  it), no terminal is attached, no call to the file system or to \<^verbatim>\<open>chmod\<close>
  fails, and the writes settle in the order in which they were started. Other worlds
  are updates of this one.
\<close>

fun path_segments :: "jsstring \<Rightarrow> jsstring list" where
  "path_segments [] = [[]]"
| "path_segments (c # cs) =
     (if c = 0x2F then [] # path_segments cs
      else (case path_segments cs of [] \<Rightarrow> [[c]] | s # ss \<Rightarrow> (c # s) # ss))"

fun normalize_segments :: "jsstring list \<Rightarrow> jsstring list \<Rightarrow> jsstring list" where
  "normalize_segments seen [] = rev seen"
| "normalize_segments seen (s # ss) =
     (if s = [] \<or> s = js ''.'' then normalize_segments seen ss
      else if s = js ''..'' then normalize_segments (tl seen) ss
      else normalize_segments (s # seen) ss)"

fun join_slash :: "jsstring list \<Rightarrow> jsstring" where
  "join_slash [] = []"
| "join_slash [s] = s"
| "join_slash (s # ss) = s @ 0x2F # join_slash ss"

definition posix_resolve :: "jsstring \<Rightarrow> jsstring \<Rightarrow> jsstring" where
  "posix_resolve cwd p =
     0x2F # join_slash (normalize_segments []
              (path_segments (if take 1 p = [0x2F] then p else cwd @ 0x2F # p)))"

definition posix_basename :: "jsstring \<Rightarrow> jsstring" where
  "posix_basename p =
     (case rev (filter (\<lambda>s. s \<noteq> []) (path_segments p)) of [] \<Rightarrow> take 1 p | s # _ \<Rightarrow> s)"

definition posix_join :: "jsstring list \<Rightarrow> jsstring" where
  "posix_join parts =
     (let joined = join_slash (filter (\<lambda>s. s \<noteq> []) parts);
          segments = normalize_segments [] (path_segments joined)
      in if take 1 joined = [0x2F] then 0x2F # join_slash segments
         else if segments = [] then js ''.'' else join_slash segments)"

fun drop_common :: "jsstring list \<Rightarrow> jsstring list \<Rightarrow> jsstring list \<times> jsstring list" where
  "drop_common (x # xs) (y # ys) = (if x = y then drop_common xs ys else (x # xs, y # ys))"
| "drop_common xs ys = (xs, ys)"

definition posix_relative :: "jsstring \<Rightarrow> jsstring \<Rightarrow> jsstring" where
  "posix_relative src dst =
     (case drop_common (normalize_segments [] (path_segments src))
                       (normalize_segments [] (path_segments dst)) of
        (up, down) \<Rightarrow> join_slash (map (\<lambda>_. js ''..'') up @ down))"

definition posix :: "jsstring \<Rightarrow> world" where
  "posix cwd =
     \<lparr>Deno_cwd = cwd,
      path_resolve = posix_resolve cwd,
      path_basename = posix_basename,
      path_join = posix_join,
      path_relative = posix_relative,
      prompt = (\<lambda>message dflt. None),
      Deno_mkdir = (\<lambda>path. None),
      Deno_writeTextFile = (\<lambda>path data. None),
      write_settles_at = (\<lambda>path. 0),
      Deno_Command_output = (\<lambda>cmd args. Inr (0, []))\<rparr>"

text \<open>The machine started in the directory \<^verbatim>\<open>/home/dev/site\<close>.\<close>

definition site :: world where
  "site = posix (js ''/home/dev/site'')"

text \<open>The same machine with a terminal, at which the user answers every question with
  the given text.\<close>

definition typing :: "jsstring \<Rightarrow> world" where
  "typing answer = site\<lparr>prompt := (\<lambda>message dflt. Some answer)\<rparr>"

text \<open>The same machine, on which \<^verbatim>\<open>uploads.ini\<close> cannot be written.\<close>

definition read_only_uploads :: world where
  "read_only_uploads =
     site\<lparr>Deno_writeTextFile := (\<lambda>path data.
       if path = js ''/home/dev/site/.pon/uploads.ini'' then Some (js ''PermissionDenied'')
       else None)\<rparr>"

text \<open>The same again, with the refused write settling before the four others.\<close>

definition refused_first :: world where
  "refused_first =
     read_only_uploads\<lparr>write_settles_at := (\<lambda>path.
       if path = js ''/home/dev/site/.pon/uploads.ini'' then 0 else 1)\<rparr>"

text \<open>The command line with no argument and no flag.\<close>

definition no_args :: Args where
  "no_args =
     \<lparr>args_positional = [], args_help = False, args_name = None, args_version = None,
      args_port = None, args_plugins = None\<rparr>"

text \<open>The configuration of the worked example of the specification, and the same
  configuration resolved for a target directory.\<close>

definition demo_config :: EnvConfig where
  "demo_config =
     \<lparr>projectName = js ''demo'', wpVersion = js ''6.4'', wpPort = js ''9090'',
      wpPlugins = js ''query-monitor acf''\<rparr>"

text \<open>What the program resolves on \<open>site\<close> from the empty command line.\<close>

definition site_config :: UserConfig where
  "site_config =
     \<lparr>projectName = js ''site'', wpVersion = js ''latest'', wpPort = js ''8080'',
      wpPlugins = [], projectDir = js ''/home/dev/site''\<rparr>"

definition demo_in :: "jsstring \<Rightarrow> UserConfig" where
  "demo_in dir =
     \<lparr>projectName = js ''demo'', wpVersion = js ''6.4'', wpPort = js ''9090'',
      wpPlugins = js ''query-monitor acf'', projectDir = dir\<rparr>"

section \<open>The resolution order in the words of the specification\<close>

text \<open>
  The specification words the resolution of a field as three layers in strict order:
  the explicit flag value, else the answer to the interactive prompt, else the
  hard-coded default. \<open>spec_resolution_order flag answer dflt\<close> is that rule; it is
  compared with what \<open>collectUserConfig\<close> computes.
\<close>

definition spec_resolution_order ::
  "jsstring option \<Rightarrow> jsstring option \<Rightarrow> jsstring \<Rightarrow> jsstring" where
  "spec_resolution_order flag answer dflt =
     (case flag of
        Some v \<Rightarrow> v
      | None \<Rightarrow> (case answer of Some a \<Rightarrow> a | None \<Rightarrow> dflt))"

section \<open>Evaluating the string functions\<close>

text \<open>
  The texts are long, and the simplifier walks through a whole branch of an
  \<^verbatim>\<open>if\<close> again once the condition is decided. The functions that run over a whole
  text are therefore evaluated with equations that decide by pattern matching on the
  outcome of the test; the equations are proved from the definitions above.
\<close>

definition split_nl_step :: "bool \<Rightarrow> nat \<Rightarrow> jsstring list \<Rightarrow> jsstring list" where
  "split_nl_step is_nl c ls =
     (if is_nl then [] # ls else (case ls of [] \<Rightarrow> [[c]] | l # ls' \<Rightarrow> (c # l) # ls'))"

definition replace_backslash_step ::
  "bool \<Rightarrow> nat \<Rightarrow> jsstring \<Rightarrow> nat \<Rightarrow> nat \<Rightarrow> jsstring \<Rightarrow> jsstring" where
  "replace_backslash_step found c r a b xs =
     (if found then r @ replace_backslash c r xs else a # replace_backslash c r (b # xs))"

definition drop_continuations_step :: "bool \<Rightarrow> nat \<Rightarrow> nat \<Rightarrow> jsstring \<Rightarrow> jsstring" where
  "drop_continuations_step found a b xs =
     (if found then drop_continuations (dropWhile (\<lambda>c. c = 0x20 \<or> c = 0x9) xs)
      else a # drop_continuations (b # xs))"

definition trim_end_step :: "bool \<Rightarrow> nat \<Rightarrow> jsstring \<Rightarrow> jsstring" where
  "trim_end_step blank c rest = (if blank \<and> rest = [] then [] else c # rest)"

fun trim_end :: "jsstring \<Rightarrow> jsstring" where
  "trim_end [] = []"
| "trim_end (c # cs) = trim_end_step (is_js_whitespace c) c (trim_end cs)"

named_theorems eval \<open>equations that evaluate the string functions on a given text\<close>

lemma split_nl_step_eval [eval]:
  "split_nl_step True c ls = [] # ls"
  "split_nl_step False c [] = [[c]]"
  "split_nl_step False c (l # ls) = (c # l) # ls"
  by (simp_all add: split_nl_step_def)

lemma split_nl_eval [eval]:
  "split_nl [] = [[]]"
  "split_nl (c # cs) = split_nl_step (c = 10) c (split_nl cs)"
  by (simp_all add: split_nl_step_def)

lemma replace_backslash_step_eval [eval]:
  "replace_backslash_step True c r a b xs = r @ replace_backslash c r xs"
  "replace_backslash_step False c r a b xs = a # replace_backslash c r (b # xs)"
  by (simp_all add: replace_backslash_step_def)

lemma replace_backslash_eval [eval]:
  "replace_backslash c r (a # b # xs) = replace_backslash_step (a = 0x5C \<and> b = c) c r a b xs"
  "replace_backslash c r [a] = [a]"
  "replace_backslash c r [] = []"
  by (simp_all add: replace_backslash_step_def)

lemma drop_continuations_step_eval [eval]:
  "drop_continuations_step True a b xs =
     drop_continuations (dropWhile (\<lambda>c. c = 0x20 \<or> c = 0x9) xs)"
  "drop_continuations_step False a b xs = a # drop_continuations (b # xs)"
  by (simp_all add: drop_continuations_step_def)

lemma drop_continuations_eval [eval]:
  "drop_continuations (a # b # xs) = drop_continuations_step (a = 0x5C \<and> b = 10) a b xs"
  "drop_continuations [a] = [a]"
  "drop_continuations [] = []"
  by (simp_all add: drop_continuations_step_def)

lemma trim_end_step_eval [eval]:
  "trim_end_step True c [] = []"
  "trim_end_step False c rest = c # rest"
  "trim_end_step blank c (x # xs) = c # x # xs"
  by (simp_all add: trim_end_step_def)

lemma trim_end_eq: "trim_end s = rev (dropWhile is_js_whitespace (rev s))"
proof (induction s)
  case Nil
  show ?case by simp
next
  case (Cons c cs)
  show ?case
  proof (cases "\<forall>x\<in>set cs. is_js_whitespace x")
    case True
    then have "dropWhile is_js_whitespace (rev cs) = []" by simp
    with Cons True show ?thesis
      by (simp add: dropWhile_append trim_end_step_def)
  next
    case False
    then have "dropWhile is_js_whitespace (rev cs) \<noteq> []" by simp
    with Cons False show ?thesis
      by (simp add: dropWhile_append trim_end_step_def)
  qed
qed

lemma trim_eval [eval]: "trim s = trim_end (dropWhile is_js_whitespace s)"
  by (simp add: trim_def trim_end_eq)

lemmas dedent_defs =
  js_def dedent_def unescape_def line_indent_def strip_indent_def is_js_whitespace_def

section \<open>The rendered templates\<close>

text \<open>\<^bold>\<open>C1.\<close> For the configuration with project name \<^verbatim>\<open>demo\<close>, version
  \<^verbatim>\<open>6.4\<close>, port \<^verbatim>\<open>9090\<close> and plugins \<^verbatim>\<open>query-monitor acf\<close>, the rendered
  dotenv text consists of the lines below; the lines that assign a variable are the four
  lines of the configuration and the four fixed database lines, and no other.\<close>

theorem createDotEnvTemplate_demo:
  \<open>split_nl (createDotEnvTemplate demo_config) =

       [js ''# .env'',
        [],
        js ''# Project Settings'',
        js ''PROJECT_NAME=demo'',
        [],
        js ''# WordPress Settings'',
        js ''WP_VERSION=6.4'',
        js ''WP_PORT=9090'',
        js ''WP_PLUGINS="query-monitor acf"'',
        [],
        js ''# Database Settings'',
        js ''MYSQL_DATABASE=wordpress'',
        js ''MYSQL_USER=wordpress'',
        js ''MYSQL_PASSWORD=your_strong_password'',
        js ''MYSQL_ROOT_PASSWORD=your_strong_root_password'']
   \<and> filter (\<lambda>l. 0x3D \<in> set l) (split_nl (createDotEnvTemplate demo_config)) =
     [js ''PROJECT_NAME=demo'',
      js ''WP_VERSION=6.4'',
      js ''WP_PORT=9090'',
      js ''WP_PLUGINS="query-monitor acf"'',
      js ''MYSQL_DATABASE=wordpress'',
      js ''MYSQL_USER=wordpress'',
      js ''MYSQL_PASSWORD=your_strong_password'',
      js ''MYSQL_ROOT_PASSWORD=your_strong_root_password'']\<close>
  unfolding createDotEnvTemplate_def demo_config_def
  by (simp del: split_nl.simps replace_backslash.simps drop_continuations.simps
        add: eval dedent_defs)

text \<open>\<^bold>\<open>C10.\<close> The two variants of the program render the dotenv file alike: for
  every configuration, \<^verbatim>\<open>createDotEnvTemplate\<close> of \<^verbatim>\<open>src/main.ts\<close> returns the
  text that \<^verbatim>\<open>createDotEnvTemplate\<close> of the other variant returns.\<close>

theorem createDotEnvTemplate_variants_agree:
  "main_ts_createDotEnvTemplate config = createDotEnvTemplate config"
  by (simp add: main_ts_createDotEnvTemplate_def createDotEnvTemplate_def)

lemma filesToCreate_contents:
  "map content (filesToCreate w userConfig) =
     [createDotEnvTemplate userConfig, dockerComposeTemplate, initPluginsScriptTemplate,
      uploadsIniTemplate, timeoutsConfTemplate]"
  by (simp add: filesToCreate_def)

text \<open>\<^bold>\<open>C5.\<close> Rendering is deterministic: the contents of the five output files are a
  function of the four fields of the configuration. Two evaluations on configurations
  with the same fields give the same five texts, in whatever world and for whatever
  target directory they run.\<close>

theorem rendering_deterministic:
  fixes c c' :: UserConfig
  assumes "projectName c = projectName c'" and "wpVersion c = wpVersion c'"
    and "wpPort c = wpPort c'" and "wpPlugins c = wpPlugins c'"
  shows "length (filesToCreate w c) = 5 \<and>
         map content (filesToCreate w c) = map content (filesToCreate w' c')"
  using assms by (simp add: filesToCreate_def createDotEnvTemplate_def)

theorem rendering_deterministic_witness:
  "projectName (demo_in (js ''/srv/a'')) = projectName (demo_in (js ''/srv/b''))
   \<and> wpVersion (demo_in (js ''/srv/a'')) = wpVersion (demo_in (js ''/srv/b''))
   \<and> wpPort (demo_in (js ''/srv/a'')) = wpPort (demo_in (js ''/srv/b''))
   \<and> wpPlugins (demo_in (js ''/srv/a'')) = wpPlugins (demo_in (js ''/srv/b''))
   \<and> length (filesToCreate (posix (js ''/srv/a'')) (demo_in (js ''/srv/a''))) = 5
   \<and> map content (filesToCreate (posix (js ''/srv/a'')) (demo_in (js ''/srv/a'')))
     = map content (filesToCreate (posix (js ''/srv/b'')) (demo_in (js ''/srv/b'')))"
  using rendering_deterministic
    [of "demo_in (js ''/srv/a'')" "demo_in (js ''/srv/b'')"
        "posix (js ''/srv/a'')" "posix (js ''/srv/b'')"]
  by (simp add: demo_in_def)

text \<open>\<^bold>\<open>C6.\<close> The contents of \<^verbatim>\<open>docker-compose.yml\<close>, \<^verbatim>\<open>init-plugins.sh\<close>,
  \<^verbatim>\<open>uploads.ini\<close> and \<^verbatim>\<open>timeouts.conf\<close> are the same for every pair of
  configurations: they are the four fixed templates.\<close>

theorem static_templates_ignore_config:
  "map content (tl (filesToCreate w c)) = map content (tl (filesToCreate w' c'))
   \<and> map content (tl (filesToCreate w c)) =
       [dockerComposeTemplate, initPluginsScriptTemplate, uploadsIniTemplate,
        timeoutsConfTemplate]
   \<and> map name (tl (filesToCreate w c)) =
       [path_join w [projectDir c, js ''docker-compose.yml''],
        path_join w [projectDir c, js ''.pon'', js ''init-plugins.sh''],
        path_join w [projectDir c, js ''.pon'', js ''uploads.ini''],
        path_join w [projectDir c, js ''.pon'', js ''timeouts.conf'']]"
  by (simp add: filesToCreate_def)

text \<open>The text of \<^verbatim>\<open>docker-compose.yml\<close>, and where a text given by its lines contains
  a word.\<close>

lemma dockerComposeTemplate_text:
  \<open>dockerComposeTemplate =
  join_nl
       [js ''name: '${PROJECT_NAME}'' @ [0x27],
        [],
        js ''services:'',
        js ''  db:'',
        js ''    image: mysql:8.0'',
        js ''    container_name: ${PROJECT_NAME}-db'',
        js ''    restart: always'',
        js ''    environment:'',
        js ''      MYSQL_ROOT_PASSWORD: ${MYSQL_ROOT_PASSWORD}'',
        js ''      MYSQL_DATABASE: ${MYSQL_DATABASE}'',
        js ''      MYSQL_USER: ${MYSQL_USER}'',
        js ''      MYSQL_PASSWORD: ${MYSQL_PASSWORD}'',
        js ''    volumes:'',
        js ''      - db_data:/var/lib/mysql'',
        js ''    networks:'',
        js ''      - wordpress_net'',
        [],
        js ''  wordpress:'',
        js ''    image: wordpress:${WP_VERSION:-latest}'',
        js ''    container_name: ${PROJECT_NAME}-wordpress'',
        js ''    restart: always'',
        js ''    depends_on:'',
        js ''      - db'',
        js ''    ports:'',
        js ''      - "${WP_PORT:-8080}:80"'',
        js ''    environment:'',
        js ''      WORDPRESS_DB_HOST: db:3306'',
        js ''      WORDPRESS_DB_USER: ${MYSQL_USER}'',
        js ''      WORDPRESS_DB_PASSWORD: ${MYSQL_PASSWORD}'',
        js ''      WORDPRESS_DB_NAME: ${MYSQL_DATABASE}'',
        js ''      WORDPRESS_TABLE_PREFIX: wp_'',
        js ''      WP_PLUGINS: ${WP_PLUGINS}'',
        js ''    volumes:'',
        js ''      - wp_data:/var/www/html'',
        js ''      - ./src:/var/www/html/wp-content/themes/current'',
        js ''      - ./.pon/init-plugins.sh:/docker-entrypoint-initwp.d/init-plugins.sh'',
        js ''      - ./.pon/uploads.ini:/usr/local/etc/php/conf.d/uploads.ini'',
        js ''      - ./.pon/timeouts.conf:/etc/apache2/conf-enabled/timeouts.conf'',
        js ''    networks:'',
        js ''      - wordpress_net'',
        [],
        js ''volumes:'',
        js ''  db_data:'',
        js ''  wp_data:'',
        [],
        js ''networks:'',
        js ''  wordpress_net:'',
        js ''    name: '${PROJECT_NAME}_net'' @ [0x27]]
\<close>
  unfolding dockerComposeTemplate_def
  by (simp del: split_nl.simps replace_backslash.simps drop_continuations.simps
        add: eval dedent_defs)

lemma sublist_join_nl: "l \<in> set ls \<Longrightarrow> sublist l (join_nl ls)"
proof (induction ls rule: join_nl.induct)
  case 1
  then show ?case by simp
next
  case (2 l')
  then show ?case by simp
next
  case (3 l' v va)
  show ?case
  proof (cases "l = l'")
    case True
    then show ?thesis by simp
  next
    case False
    with 3 have "sublist l (join_nl (v # va))" by simp
    moreover have "sublist (join_nl (v # va)) ((l' @ [10]) @ join_nl (v # va))"
      by (rule sublist_append_leftI)
    ultimately have "sublist l ((l' @ [10]) @ join_nl (v # va))"
      by (rule sublist_order.order_trans)
    then show ?thesis by simp
  qed
qed

lemma sublist_line: "sublist x l \<Longrightarrow> l \<in> set ls \<Longrightarrow> sublist x (join_nl ls)"
  by (blast intro: sublist_order.order_trans sublist_join_nl)

text \<open>\<^bold>\<open>C8.\<close> For every configuration the emitted \<^verbatim>\<open>docker-compose.yml\<close> is the
  fixed template, and that text contains the references \<^verbatim>\<open>${PROJECT_NAME}\<close>,
  \<^verbatim>\<open>${WP_VERSION:-latest}\<close>, \<^verbatim>\<open>${WP_PORT:-8080}\<close> and \<^verbatim>\<open>${WP_PLUGINS}\<close>
  literally: the program leaves them to the container tool.\<close>

theorem dockerCompose_keeps_references:
  \<open>name (filesToCreate w c ! 1) = path_join w [projectDir c, js ''docker-compose.yml'']
   \<and> content (filesToCreate w c ! 1) = dockerComposeTemplate
   \<and> sublist (js ''${PROJECT_NAME}'') dockerComposeTemplate
   \<and> sublist (js ''${WP_VERSION:-latest}'') dockerComposeTemplate
   \<and> sublist (js ''${WP_PORT:-8080}'') dockerComposeTemplate
   \<and> sublist (js ''${WP_PLUGINS}'') dockerComposeTemplate\<close>
proof -
  have entry: "name (filesToCreate w c ! 1) = path_join w [projectDir c, js ''docker-compose.yml'']"
    "content (filesToCreate w c ! 1) = dockerComposeTemplate"
    by (simp_all add: filesToCreate_def)
  have project: \<open>sublist (js ''${PROJECT_NAME}'') (js ''    container_name: ${PROJECT_NAME}-db'')\<close>
    by (simp add: sublist_code js_def)
  have version: \<open>sublist (js ''${WP_VERSION:-latest}'') (js ''    image: wordpress:${WP_VERSION:-latest}'')\<close>
    by (simp add: sublist_code js_def)
  have port: \<open>sublist (js ''${WP_PORT:-8080}'') (js ''      - "${WP_PORT:-8080}:80"'')\<close>
    by (simp add: sublist_code js_def)
  have plugins: \<open>sublist (js ''${WP_PLUGINS}'') (js ''      WP_PLUGINS: ${WP_PLUGINS}'')\<close>
    by (simp add: sublist_code js_def)
  have "sublist (js ''${PROJECT_NAME}'') dockerComposeTemplate"
    unfolding dockerComposeTemplate_text by (rule sublist_line [OF project]) simp
  moreover have "sublist (js ''${WP_VERSION:-latest}'') dockerComposeTemplate"
    unfolding dockerComposeTemplate_text by (rule sublist_line [OF version]) simp
  moreover have "sublist (js ''${WP_PORT:-8080}'') dockerComposeTemplate"
    unfolding dockerComposeTemplate_text by (rule sublist_line [OF port]) simp
  moreover have "sublist (js ''${WP_PLUGINS}'') dockerComposeTemplate"
    unfolding dockerComposeTemplate_text by (rule sublist_line [OF plugins]) simp
  ultimately show ?thesis using entry by simp
qed

text \<open>The usage text, as it is printed.\<close>

lemma helpText_text:
  \<open>helpText =
  join_nl
       [js ''WP-Pon: A tool to quickly set up a WordPress development environment.'',
        [],
        js ''Usage:'',
        js ''  deno run --allow-all main.ts [directory] [options]'',
        [],
        js ''Description:'',
        js ''  This script interactively sets up a Docker-based WordPress environment.'',
        js ''  It generates docker-compose.yml, .env, and other necessary configuration files.'',
        [],
        js ''Arguments:'',
        js ''  [directory]         The directory to create the project in. Defaults to the current directory.'',
        [],
        js ''Options:'',
        js ''  -h, --help                Show this help message.'',
        js ''  -n, --name <name> Set the project name. Defaults to the directory name.'',
        js ''  -v, --version <version>   Set the WordPress version (e.g., "latest", "6.4"). Defaults to "latest".'',
        js ''  -p, --port <port>         Set the public port for WordPress. Defaults to "8080".'',
        js ''  -e, --plugins <slugs>     A space-separated string of plugin slugs to install (e.g., "query-monitor advanced-custom-fields").'']
\<close>
  unfolding helpText_def
  by (simp del: split_nl.simps replace_backslash.simps drop_continuations.simps
        add: eval dedent_defs)

section \<open>The resolved configuration\<close>

lemmas posix_defs =
  site_def posix_def posix_resolve_def posix_basename_def posix_join_def posix_relative_def js_def

lemma site_paths:
  "Deno_cwd site = js ''/home/dev/site''"
  "path_resolve site (js ''.'') = js ''/home/dev/site''"
  "path_resolve site (js ''demo'') = js ''/home/dev/site/demo''"
  "path_resolve site (js ''/srv/www/blog'') = js ''/srv/www/blog''"
  "path_basename site (js ''/home/dev/site'') = js ''site''"
  "path_join site [js ''/home/dev/site'', js ''.pon''] = js ''/home/dev/site/.pon''"
  "path_join site [js ''/home/dev/site'', js ''src''] = js ''/home/dev/site/src''"
  "path_join site [js ''/home/dev/site'', js ''.env''] = js ''/home/dev/site/.env''"
  "path_join site [js ''/home/dev/site'', js ''docker-compose.yml'']
     = js ''/home/dev/site/docker-compose.yml''"
  "path_join site [js ''/home/dev/site'', js ''.pon'', js ''init-plugins.sh'']
     = js ''/home/dev/site/.pon/init-plugins.sh''"
  "path_join site [js ''/home/dev/site'', js ''.pon'', js ''uploads.ini'']
     = js ''/home/dev/site/.pon/uploads.ini''"
  "path_join site [js ''/home/dev/site'', js ''.pon'', js ''timeouts.conf'']
     = js ''/home/dev/site/.pon/timeouts.conf''"
  "path_relative site (js ''/home/dev/site'') (js ''/home/dev/site'') = []"
  by (simp_all add: posix_defs)

lemma collectUserConfig_fields:
  "projectDir (fst (collectUserConfig w args)) =
     path_resolve w (case args_positional args of
                       d # ds \<Rightarrow> d
                     | [] \<Rightarrow> (case args_name args of Some n \<Rightarrow> n | None \<Rightarrow> js ''.''))"
  "projectName (fst (collectUserConfig w args)) =
     fst (flag_or_prompt w (args_name args) (js ''Enter project name:'')
            (path_basename w (projectDir (fst (collectUserConfig w args)))))"
  "wpVersion (fst (collectUserConfig w args)) =
     fst (flag_or_prompt w (args_version args) (js ''Enter WordPress version:'') (js ''latest''))"
  "wpPort (fst (collectUserConfig w args)) =
     fst (flag_or_prompt w (args_port args) (js ''Enter public port:'') (js ''8080''))"
  "wpPlugins (fst (collectUserConfig w args)) =
     (case args_plugins args of Some p \<Rightarrow> p | None \<Rightarrow> [])"
  by (simp_all add: collectUserConfig_def Let_def split: prod.splits)

lemma flag_or_prompt_value:
  "fst (flag_or_prompt w flag message dflt) =
     spec_resolution_order flag (prompt w message dflt) dflt"
  by (simp add: flag_or_prompt_def spec_resolution_order_def split: option.splits)

lemma flag_or_prompt_events:
  "snd (flag_or_prompt w flag message dflt) =
     (case flag of None \<Rightarrow> [Prompt message dflt] | Some v \<Rightarrow> [])"
  by (simp add: flag_or_prompt_def split: option.splits)

lemma collectUserConfig_prompts:
  "snd (collectUserConfig w args) =
     snd (flag_or_prompt w (args_name args) (js ''Enter project name:'')
            (path_basename w (projectDir (fst (collectUserConfig w args)))))
     @ snd (flag_or_prompt w (args_version args) (js ''Enter WordPress version:'') (js ''latest''))
     @ snd (flag_or_prompt w (args_port args) (js ''Enter public port:'') (js ''8080''))"
  by (simp add: collectUserConfig_def Let_def split: prod.splits)

text \<open>\<^bold>\<open>C2\<close> (as amended). The project name, the WordPress version and the port are
  resolved in the order of the specification: the flag value when one is given, otherwise
  the answer to the prompt, otherwise the default (the basename of the target directory,
  \<^verbatim>\<open>latest\<close>, \<^verbatim>\<open>8080\<close>). The plugin list is the flag value when one is given and
  the empty string otherwise; no prompt asks for it: the prompts that the resolver shows
  are those for the name, the version and the port, each when its flag is missing, and
  no other.\<close>

theorem collectUserConfig_resolution_order:
  "projectName (fst (collectUserConfig w args)) =
     spec_resolution_order (args_name args)
       (prompt w (js ''Enter project name:'')
          (path_basename w (projectDir (fst (collectUserConfig w args)))))
       (path_basename w (projectDir (fst (collectUserConfig w args))))
   \<and> wpVersion (fst (collectUserConfig w args)) =
     spec_resolution_order (args_version args)
       (prompt w (js ''Enter WordPress version:'') (js ''latest'')) (js ''latest'')
   \<and> wpPort (fst (collectUserConfig w args)) =
     spec_resolution_order (args_port args)
       (prompt w (js ''Enter public port:'') (js ''8080'')) (js ''8080'')
   \<and> wpPlugins (fst (collectUserConfig w args)) =
     (case args_plugins args of Some p \<Rightarrow> p | None \<Rightarrow> [])
   \<and> snd (collectUserConfig w args) =
     (case args_name args of
        None \<Rightarrow> [Prompt (js ''Enter project name:'')
                  (path_basename w (projectDir (fst (collectUserConfig w args))))]
      | Some v \<Rightarrow> [])
     @ (case args_version args of
          None \<Rightarrow> [Prompt (js ''Enter WordPress version:'') (js ''latest'')]
        | Some v \<Rightarrow> [])
     @ (case args_port args of
          None \<Rightarrow> [Prompt (js ''Enter public port:'') (js ''8080'')]
        | Some v \<Rightarrow> [])"
proof -
  have "snd (collectUserConfig w args) =
     (case args_name args of
        None \<Rightarrow> [Prompt (js ''Enter project name:'')
                  (path_basename w (projectDir (fst (collectUserConfig w args))))]
      | Some v \<Rightarrow> [])
     @ (case args_version args of
          None \<Rightarrow> [Prompt (js ''Enter WordPress version:'') (js ''latest'')]
        | Some v \<Rightarrow> [])
     @ (case args_port args of
          None \<Rightarrow> [Prompt (js ''Enter public port:'') (js ''8080'')]
        | Some v \<Rightarrow> [])"
    by (subst collectUserConfig_prompts) (simp only: flag_or_prompt_events)
  then show ?thesis
    by (simp only: collectUserConfig_fields flag_or_prompt_value simp_thms)
qed

text \<open>The claim C2 as stated fails for the plugin list: without the flag, at a terminal
  that answers every question with \<^verbatim>\<open>akismet\<close>, the resolved plugin list is empty,
  where the three layers of the specification would give the answer.\<close>

theorem plugins_prompt_counterexample:
  "wpPlugins (fst (collectUserConfig (typing (js ''akismet'')) no_args)) = []
   \<and> spec_resolution_order (args_plugins no_args)
       (prompt (typing (js ''akismet'')) (js ''Enter plugin slugs (space separated):'') [])
       [] = js ''akismet''
   \<and> wpPlugins (fst (collectUserConfig (typing (js ''akismet'')) no_args))
     \<noteq> spec_resolution_order (args_plugins no_args)
         (prompt (typing (js ''akismet'')) (js ''Enter plugin slugs (space separated):'') [])
         []"
  by (simp add: collectUserConfig_fields spec_resolution_order_def no_args_def typing_def js_def)

text \<open>\<^bold>\<open>C3.\<close> Without a positional directory argument the project directory is to be
  the current working directory, whatever the flags; the usage text of the program
  says the same of \<^verbatim>\<open>[directory]\<close>: \<^verbatim>\<open>Defaults to the current directory.\<close> The
  code does otherwise when the name flag is given: \<^verbatim>\<open>dirArg\<close> falls back to
  \<^verbatim>\<open>args.name\<close> before \<^verbatim>\<open>"."\<close>, and with \<^verbatim>\<open>--name demo\<close> and no directory
  in \<^verbatim>\<open>/home/dev/site\<close> the project directory is \<^verbatim>\<open>/home/dev/site/demo\<close>.\<close>

theorem projectDir_with_name_flag:
  "args_positional (no_args\<lparr>args_name := Some (js ''demo'')\<rparr>) = []
   \<and> sublist
       (js ''[directory]         The directory to create the project in. Defaults to the current directory.'')
       helpText
   \<and> Deno_cwd site = js ''/home/dev/site''
   \<and> projectDir (fst (collectUserConfig site (no_args\<lparr>args_name := Some (js ''demo'')\<rparr>)))
       = js ''/home/dev/site/demo''
   \<and> projectDir (fst (collectUserConfig site (no_args\<lparr>args_name := Some (js ''demo'')\<rparr>)))
       \<noteq> Deno_cwd site"
proof -
  have "sublist
      (js ''[directory]         The directory to create the project in. Defaults to the current directory.'')
      (js ''  '' @
       js ''[directory]         The directory to create the project in. Defaults to the current directory.'')"
    by (rule sublist_append_leftI)
  also have "js ''  '' @
      js ''[directory]         The directory to create the project in. Defaults to the current directory.''
    = js ''  [directory]         The directory to create the project in. Defaults to the current directory.''"
    by (simp add: js_def)
  finally have "sublist
      (js ''[directory]         The directory to create the project in. Defaults to the current directory.'')
      helpText"
    unfolding helpText_text by (rule sublist_line) simp
  moreover have "projectDir (fst (collectUserConfig site (no_args\<lparr>args_name := Some (js ''demo'')\<rparr>)))
      = js ''/home/dev/site/demo''"
    by (simp add: collectUserConfig_fields no_args_def site_paths)
  moreover have "js ''/home/dev/site/demo'' \<noteq> js ''/home/dev/site''"
    by (simp add: js_def)
  ultimately show ?thesis
    by (simp add: no_args_def site_paths)
qed

text \<open>\<^bold>\<open>C7\<close> (as amended). When neither a positional argument nor a name flag is
  given, and the prompt for the project name gives no answer or gives back the default
  it shows, the project name is the basename of the current working directory.\<close>

theorem projectName_default:
  assumes "args_positional args = []" and "args_name args = None"
    and "path_resolve w (js ''.'') = Deno_cwd w"
    and "prompt w (js ''Enter project name:'') (path_basename w (Deno_cwd w)) = None
         \<or> prompt w (js ''Enter project name:'') (path_basename w (Deno_cwd w))
            = Some (path_basename w (Deno_cwd w))"
  shows "projectName (fst (collectUserConfig w args)) = path_basename w (Deno_cwd w)"
  using assms by (auto simp add: collectUserConfig_fields flag_or_prompt_def)

theorem projectName_default_witness:
  "args_positional no_args = [] \<and> args_name no_args = None
   \<and> path_resolve site (js ''.'') = Deno_cwd site
   \<and> prompt site (js ''Enter project name:'') (path_basename site (Deno_cwd site)) = None
   \<and> projectName (fst (collectUserConfig site no_args)) = js ''site''"
  using projectName_default [of no_args site]
  by (simp add: no_args_def site_paths) (simp add: site_def posix_def)

text \<open>The claim C7 as stated fails at a terminal: the user who types \<^verbatim>\<open>blog\<close> at
  the prompt gets the project name \<^verbatim>\<open>blog\<close>, in the directory \<^verbatim>\<open>site\<close>.\<close>

theorem projectName_counterexample:
  "args_positional no_args = [] \<and> args_name no_args = None
   \<and> projectName (fst (collectUserConfig (typing (js ''blog'')) no_args)) = js ''blog''
   \<and> path_basename (typing (js ''blog'')) (Deno_cwd (typing (js ''blog''))) = js ''site''
   \<and> projectName (fst (collectUserConfig (typing (js ''blog'')) no_args))
       \<noteq> path_basename (typing (js ''blog'')) (Deno_cwd (typing (js ''blog'')))"
  by (simp add: collectUserConfig_fields flag_or_prompt_def no_args_def typing_def site_paths)
     (simp add: js_def)

section \<open>The runs of the program\<close>

lemma collectUserConfig_events:
  "e \<in> set (snd (collectUserConfig w args)) \<Longrightarrow> \<exists>message dflt. e = Prompt message dflt"
  by (auto simp add: collectUserConfig_def flag_or_prompt_def Let_def
        split: prod.splits option.splits)

lemma settle_result:
  "fst (settle ps) = Inr () \<longleftrightarrow> (\<forall>p\<in>set ps. promise_outcome p = Inr ())"
  by (induction ps) (auto split: sum.splits prod.splits)

lemma settle_reports: "set (snd (settle ps)) \<subseteq> promise_report ` set ps"
  by (induction ps) (auto split: sum.splits prod.splits)

lemma settle_all_reports:
  "fst (settle ps) = Inr () \<Longrightarrow> snd (settle ps) = map promise_report ps"
  by (induction ps) (auto split: sum.splits prod.splits)

lemma createFile_report:
  "promise_report (createFile w f) \<noteq> Command cmd argv"
  "promise_report (createFile w f) \<noteq> WriteTextFile path data"
  by (simp_all add: createFile_def split: option.splits)

lemma createFile_outcome:
  "promise_outcome (createFile w f) = Inr ()
   \<longleftrightarrow> Deno_writeTextFile w (name f) (content f) = None"
  by (simp add: createFile_def split: option.splits)

lemma Promise_all_createFile:
  "\<exists>reports. snd (Promise_all (map (createFile w) fs))
       = map (\<lambda>f. WriteTextFile (name f) (content f)) fs @ reports
     \<and> (\<forall>e\<in>set reports. \<exists>f\<in>set fs. e = promise_report (createFile w f))
     \<and> (fst (Promise_all (map (createFile w) fs)) = Inr ()
        \<longrightarrow> (\<forall>f\<in>set fs. promise_report (createFile w f) \<in> set reports))"
proof -
  let ?ps = "sort_key promise_settles_at (map (createFile w) fs)"
  obtain r reports where s: "settle ?ps = (r, reports)"
    by (cases "settle ?ps")
  have calls: "map promise_call (map (createFile w) fs)
      = map (\<lambda>f. WriteTextFile (name f) (content f)) fs"
    by (simp add: createFile_def)
  have "set reports \<subseteq> promise_report ` set ?ps"
    using settle_reports [of ?ps] s by simp
  then have some: "\<forall>e\<in>set reports. \<exists>f\<in>set fs. e = promise_report (createFile w f)"
    by auto
  have every: "\<forall>f\<in>set fs. promise_report (createFile w f) \<in> set reports" if "r = Inr ()"
  proof -
    from that s have "reports = map promise_report ?ps"
      using settle_all_reports [of ?ps] by simp
    then have "set reports = promise_report ` set (map (createFile w) fs)"
      by simp
    then show ?thesis by simp
  qed
  have "snd (Promise_all (map (createFile w) fs))
      = map (\<lambda>f. WriteTextFile (name f) (content f)) fs @ reports"
    and "fst (Promise_all (map (createFile w) fs)) = r"
    using calls by (simp_all add: Promise_all_def s)
  with some every show ?thesis by blast
qed

lemma Promise_all_result:
  "fst (Promise_all (map (createFile w) fs)) = Inr ()
   \<longleftrightarrow> (\<forall>f\<in>set fs. Deno_writeTextFile w (name f) (content f) = None)"
proof -
  have "fst (Promise_all (map (createFile w) fs))
      = fst (settle (sort_key promise_settles_at (map (createFile w) fs)))"
    by (simp add: Promise_all_def split: prod.splits)
  then show ?thesis
    by (simp add: settle_result createFile_outcome)
qed

lemma Promise_all_no_Command:
  "Command cmd argv \<notin> set (snd (Promise_all (map (createFile w) fs)))"
proof
  assume cmd: "Command cmd argv \<in> set (snd (Promise_all (map (createFile w) fs)))"
  obtain reports where ev: "snd (Promise_all (map (createFile w) fs))
      = map (\<lambda>f. WriteTextFile (name f) (content f)) fs @ reports"
    and reports: "\<forall>e\<in>set reports. \<exists>f\<in>set fs. e = promise_report (createFile w f)"
    using Promise_all_createFile [of w fs] by blast
  from cmd have "Command cmd argv \<in> set reports"
    by (auto simp add: ev)
  with reports obtain f where "Command cmd argv = promise_report (createFile w f)"
    by blast
  with createFile_report(1) [of w f cmd argv] show False by simp
qed

lemma Promise_all_WriteTextFile:
  "WriteTextFile path data \<in> set (snd (Promise_all (map (createFile w) fs)))
   \<longleftrightarrow> (\<exists>f\<in>set fs. name f = path \<and> content f = data)"
proof -
  obtain reports where ev: "snd (Promise_all (map (createFile w) fs))
      = map (\<lambda>f. WriteTextFile (name f) (content f)) fs @ reports"
    and reports: "\<forall>e\<in>set reports. \<exists>f\<in>set fs. e = promise_report (createFile w f)"
    using Promise_all_createFile [of w fs] by blast
  have "WriteTextFile path data \<notin> set reports"
  proof
    assume "WriteTextFile path data \<in> set reports"
    with reports obtain f where "WriteTextFile path data = promise_report (createFile w f)"
      by blast
    with createFile_report(2) [of w f path data] show False by simp
  qed
  then show ?thesis
    by (auto simp add: ev)
qed

lemma Promise_all_created:
  assumes "f \<in> set fs"
    and "\<forall>g\<in>set fs. Deno_writeTextFile w (name g) (content g) = None"
  shows "ConsoleLog ([0x2705] @ js '' Successfully created '' @ name f)
     \<in> set (snd (Promise_all (map (createFile w) fs)))"
proof -
  from assms(2) have ok: "fst (Promise_all (map (createFile w) fs)) = Inr ()"
    by (simp add: Promise_all_result)
  obtain reports where ev: "snd (Promise_all (map (createFile w) fs))
      = map (\<lambda>f. WriteTextFile (name f) (content f)) fs @ reports"
    and reports: "\<forall>f\<in>set fs. promise_report (createFile w f) \<in> set reports"
    using Promise_all_createFile [of w fs] ok by blast
  have "promise_report (createFile w f)
      = ConsoleLog ([0x2705] @ js '' Successfully created '' @ name f)"
    using assms by (simp add: createFile_def)
  with assms(1) reports have "ConsoleLog ([0x2705] @ js '' Successfully created '' @ name f)
      \<in> set reports"
    by force
  then show ?thesis by (simp add: ev)
qed

lemma setExecutePermission_events:
  "\<exists>outcome. snd (setExecutePermission w filePath) =
     [ConsoleLog ([0x2139, 0xFE0F] @ js '' Setting execute permission for '' @ filePath @ js ''...''),
      Command (js ''chmod'') [js ''+x'', filePath],
      outcome]
     \<and> (\<forall>cmd argv. outcome \<noteq> Command cmd argv)
     \<and> (\<forall>path data. outcome \<noteq> WriteTextFile path data)"
  by (auto simp add: setExecutePermission_def Let_def split: sum.splits prod.splits)

lemma main_help:
  "args_help args \<Longrightarrow> main w args = \<lparr>trace = [ConsoleLog helpText], exit_code = 0\<rparr>"
  by (simp add: main_def showHelp_def)

lemma main_try_cases:
  fixes w :: world and args :: Args
  defines "cfg \<equiv> fst (collectUserConfig w args)"
  defines "evc \<equiv> snd (collectUserConfig w args)"
  defines "pon \<equiv> path_join w [projectDir cfg, js ''.pon'']"
  defines "src \<equiv> path_join w [projectDir cfg, js ''src'']"
  defines "script \<equiv> path_join w [projectDir cfg, js ''.pon'', js ''init-plugins.sh'']"
  defines "evf \<equiv> snd (Promise_all (map (createFile w) (filesToCreate w cfg)))"
  shows "(\<exists>error ev. main_try w args = (Inl error, evc @ ev) \<and> set ev \<subseteq> {Mkdir pon, Mkdir src})
       \<or> (\<exists>error. main_try w args = (Inl error, evc @ [Mkdir pon, Mkdir src] @ evf)
             \<and> fst (Promise_all (map (createFile w) (filesToCreate w cfg))) = Inl error)
       \<or> (\<exists>r rest. main_try w args =
               (r, evc @ [Mkdir pon, Mkdir src] @ evf @ snd (setExecutePermission w script) @ rest)
             \<and> fst (Promise_all (map (createFile w) (filesToCreate w cfg))) = Inr ()
             \<and> (\<forall>e\<in>set rest. \<exists>s. e = ConsoleLog s))"
proof -
  have config: "collectUserConfig w args = (cfg, evc)"
    by (simp add: cfg_def evc_def)
  show ?thesis
  proof (cases "Deno_mkdir w pon")
    case (Some error)
    then have "main_try w args = (Inl error, evc @ [Mkdir pon])"
      by (simp add: main_try_def config pon_def Let_def)
    then show ?thesis by auto
  next
    case pon_ok: None
    show ?thesis
    proof (cases "Deno_mkdir w src")
      case (Some error)
      with pon_ok have "main_try w args = (Inl error, evc @ [Mkdir pon, Mkdir src])"
        by (simp add: main_try_def config pon_def src_def Let_def)
      then show ?thesis by auto
    next
      case src_ok: None
      obtain r ev where files: "Promise_all (map (createFile w) (filesToCreate w cfg)) = (r, ev)"
        by (cases "Promise_all (map (createFile w) (filesToCreate w cfg))")
      then have ev: "ev = evf" by (simp add: evf_def)
      show ?thesis
      proof (cases r)
        case (Inl error)
        with pon_ok src_ok files ev
        have "main_try w args = (Inl error, evc @ [Mkdir pon, Mkdir src] @ evf)"
          by (simp add: main_try_def config pon_def src_def Let_def)
        with Inl files show ?thesis by simp
      next
        case (Inr u)
        obtain r' ev' where chmod: "setExecutePermission w script = (r', ev')"
          by (cases "setExecutePermission w script")
        from Inr pon_ok src_ok files ev chmod
        have "\<exists>r rest. main_try w args = (r, evc @ [Mkdir pon, Mkdir src] @ evf @ ev' @ rest)
                \<and> (\<forall>e\<in>set rest. \<exists>s. e = ConsoleLog s)"
          by (cases r') (simp_all add: main_try_def config pon_def src_def script_def Let_def)
        with Inr files chmod show ?thesis by simp
      qed
    qed
  qed
qed

lemma js_inject: "js a = js b \<longleftrightarrow> a = b"
  by (simp add: js_def inj_map_eq_map inj_of_char)

lemmas run_defs =
  main_def main_try_def collectUserConfig_def flag_or_prompt_def filesToCreate_def
  createFile_def Promise_all_def setExecutePermission_def no_args_def Let_def

lemma site_calls:
  "prompt site message dflt = None"
  "Deno_mkdir site path = None"
  "Deno_writeTextFile site path data = None"
  "write_settles_at site path = 0"
  "Deno_Command_output site cmd argv = Inr (0, [])"
  by (simp_all add: site_def posix_def)

text \<open>Three runs from the empty command line: one on the machine where nothing fails, one
  where \<^verbatim>\<open>uploads.ini\<close> cannot be written. In the second the write of
  \<^verbatim>\<open>timeouts.conf\<close> is started and never reports: the program exits before. In
  the third run the refused write settles first, and no write reports a success.\<close>

lemma run_site:
  "main site no_args =
     \<lparr>trace =
        [ConsoleLog ([0xD83D, 0xDE80]
           @ js '' Starting interactive setup for WordPress environment...''),
         Prompt (js ''Enter project name:'') (js ''site''),
         Prompt (js ''Enter WordPress version:'') (js ''latest''),
         Prompt (js ''Enter public port:'') (js ''8080''),
         Mkdir (js ''/home/dev/site/.pon''),
         Mkdir (js ''/home/dev/site/src''),
         WriteTextFile (js ''/home/dev/site/.env'') (createDotEnvTemplate site_config),
         WriteTextFile (js ''/home/dev/site/docker-compose.yml'') dockerComposeTemplate,
         WriteTextFile (js ''/home/dev/site/.pon/init-plugins.sh'') initPluginsScriptTemplate,
         WriteTextFile (js ''/home/dev/site/.pon/uploads.ini'') uploadsIniTemplate,
         WriteTextFile (js ''/home/dev/site/.pon/timeouts.conf'') timeoutsConfTemplate,
         ConsoleLog ([0x2705] @ js '' Successfully created ''
           @ js ''/home/dev/site/.env''),
         ConsoleLog ([0x2705] @ js '' Successfully created ''
           @ js ''/home/dev/site/docker-compose.yml''),
         ConsoleLog ([0x2705] @ js '' Successfully created ''
           @ js ''/home/dev/site/.pon/init-plugins.sh''),
         ConsoleLog ([0x2705] @ js '' Successfully created ''
           @ js ''/home/dev/site/.pon/uploads.ini''),
         ConsoleLog ([0x2705] @ js '' Successfully created ''
           @ js ''/home/dev/site/.pon/timeouts.conf''),
         ConsoleLog ([0x2139, 0xFE0F] @ js '' Setting execute permission for ''
           @ js ''/home/dev/site/.pon/init-plugins.sh'' @ js ''...''),
         Command (js ''chmod'') [js ''+x'', js ''/home/dev/site/.pon/init-plugins.sh''],
         ConsoleLog ([0x2705] @ js '' Execute permission set successfully.''),
         ConsoleLog ([0xD83C, 0xDF89] @ js '' Environment setup is complete!''),
         ConsoleLog (js ''Next steps:''),
         ConsoleLog (js ''   Navigate to your project directory:''),
         ConsoleLog (js ''   cd '' @ js ''.''),
         ConsoleLog (js ''   Start the containers in detached mode:''),
         ConsoleLog (js ''   docker-compose up -d'')],
      exit_code = 0\<rparr>"
  by (simp add: run_defs site_config_def site_paths site_calls)

lemma run_read_only_uploads:
  "main read_only_uploads no_args =
     \<lparr>trace =
        [ConsoleLog ([0xD83D, 0xDE80]
           @ js '' Starting interactive setup for WordPress environment...''),
         Prompt (js ''Enter project name:'') (js ''site''),
         Prompt (js ''Enter WordPress version:'') (js ''latest''),
         Prompt (js ''Enter public port:'') (js ''8080''),
         Mkdir (js ''/home/dev/site/.pon''),
         Mkdir (js ''/home/dev/site/src''),
         WriteTextFile (js ''/home/dev/site/.env'') (createDotEnvTemplate site_config),
         WriteTextFile (js ''/home/dev/site/docker-compose.yml'') dockerComposeTemplate,
         WriteTextFile (js ''/home/dev/site/.pon/init-plugins.sh'') initPluginsScriptTemplate,
         WriteTextFile (js ''/home/dev/site/.pon/uploads.ini'') uploadsIniTemplate,
         WriteTextFile (js ''/home/dev/site/.pon/timeouts.conf'') timeoutsConfTemplate,
         ConsoleLog ([0x2705] @ js '' Successfully created ''
           @ js ''/home/dev/site/.env''),
         ConsoleLog ([0x2705] @ js '' Successfully created ''
           @ js ''/home/dev/site/docker-compose.yml''),
         ConsoleLog ([0x2705] @ js '' Successfully created ''
           @ js ''/home/dev/site/.pon/init-plugins.sh''),
         ConsoleError ([0x274C] @ js '' Failed to create ''
           @ js ''/home/dev/site/.pon/uploads.ini'' @ js '':'') (js ''PermissionDenied''),
         ConsoleError ([0xD83D, 0xDCA5]
           @ js '' An error occurred during setup. Please check the logs above.'')
           (js ''PermissionDenied'')],
      exit_code = 1\<rparr>"
  by (simp add: run_defs site_config_def read_only_uploads_def site_paths site_calls js_inject)

lemma run_refused_first:
  "main refused_first no_args =
     \<lparr>trace =
        [ConsoleLog ([0xD83D, 0xDE80]
           @ js '' Starting interactive setup for WordPress environment...''),
         Prompt (js ''Enter project name:'') (js ''site''),
         Prompt (js ''Enter WordPress version:'') (js ''latest''),
         Prompt (js ''Enter public port:'') (js ''8080''),
         Mkdir (js ''/home/dev/site/.pon''),
         Mkdir (js ''/home/dev/site/src''),
         WriteTextFile (js ''/home/dev/site/.env'') (createDotEnvTemplate site_config),
         WriteTextFile (js ''/home/dev/site/docker-compose.yml'') dockerComposeTemplate,
         WriteTextFile (js ''/home/dev/site/.pon/init-plugins.sh'') initPluginsScriptTemplate,
         WriteTextFile (js ''/home/dev/site/.pon/uploads.ini'') uploadsIniTemplate,
         WriteTextFile (js ''/home/dev/site/.pon/timeouts.conf'') timeoutsConfTemplate,
         ConsoleError ([0x274C] @ js '' Failed to create ''
           @ js ''/home/dev/site/.pon/uploads.ini'' @ js '':'') (js ''PermissionDenied''),
         ConsoleError ([0xD83D, 0xDCA5]
           @ js '' An error occurred during setup. Please check the logs above.'')
           (js ''PermissionDenied'')],
      exit_code = 1\<rparr>"
  by (simp add: run_defs site_config_def refused_first_def read_only_uploads_def site_paths site_calls js_inject)

text \<open>\<^bold>\<open>C4.\<close> In every run in which the write of an output file fails, the exit code
  is 1 and \<^verbatim>\<open>chmod\<close> is never invoked. A command that a run invokes is
  \<^verbatim>\<open>chmod +x\<close> on the installer script; then all five writes have succeeded, and the
  write of the script and the report of its success come before the command in the
  trace.\<close>

theorem failed_write_stops_before_chmod:
  "(WriteTextFile path data \<in> set (trace (main w args))
      \<and> Deno_writeTextFile w path data \<noteq> None
    \<longrightarrow> exit_code (main w args) = 1
        \<and> (\<forall>cmd argv. Command cmd argv \<notin> set (trace (main w args))))
   \<and> (Command cmd argv \<in> set (trace (main w args))
    \<longrightarrow> cmd = js ''chmod''
        \<and> argv = [js ''+x'',
             path_join w [projectDir (fst (collectUserConfig w args)), js ''.pon'',
               js ''init-plugins.sh'']]
        \<and> (\<forall>f\<in>set (filesToCreate w (fst (collectUserConfig w args))).
              Deno_writeTextFile w (name f) (content f) = None)
        \<and> (\<exists>before after.
              trace (main w args) = before @ Command cmd argv # after
              \<and> WriteTextFile
                   (path_join w [projectDir (fst (collectUserConfig w args)), js ''.pon'',
                      js ''init-plugins.sh''])
                   initPluginsScriptTemplate \<in> set before
              \<and> ConsoleLog ([0x2705] @ js '' Successfully created '' @
                   path_join w [projectDir (fst (collectUserConfig w args)), js ''.pon'',
                     js ''init-plugins.sh'']) \<in> set before
              \<and> (\<forall>c a. Command c a \<notin> set before)))"
  (is "?failed \<and> ?chmod")
proof (cases "args_help args")
  case True
  then show ?thesis by (simp add: main_help)
next
  case False
  define cfg where "cfg = fst (collectUserConfig w args)"
  define evc where "evc = snd (collectUserConfig w args)"
  define pon where "pon = path_join w [projectDir cfg, js ''.pon'']"
  define src where "src = path_join w [projectDir cfg, js ''src'']"
  define script where "script = path_join w [projectDir cfg, js ''.pon'', js ''init-plugins.sh'']"
  define files where "files = filesToCreate w cfg"
  define evf where "evf = snd (Promise_all (map (createFile w) files))"
  define started where "started = ConsoleLog ([0xD83D, 0xDE80]
    @ js '' Starting interactive setup for WordPress environment...'')"
  have evc: "Command c a \<notin> set evc" "WriteTextFile p d \<notin> set evc" for c a p d
    using collectUserConfig_events [of _ w args] by (auto simp add: evc_def)
  have evf_cmd: "Command c a \<notin> set evf" for c a
    by (simp add: evf_def Promise_all_no_Command)
  have script_file: "\<lparr>name = script, content = initPluginsScriptTemplate\<rparr> \<in> set files"
    by (simp add: files_def filesToCreate_def script_def)
  note cases = main_try_cases [of w args, folded cfg_def, folded evc_def pon_def src_def script_def
      files_def, folded evf_def]
  from cases consider
    (mkdir_failed) error ev where "main_try w args = (Inl error, evc @ ev)" "set ev \<subseteq> {Mkdir pon, Mkdir src}"
  | (write_failed) error where "main_try w args = (Inl error, evc @ [Mkdir pon, Mkdir src] @ evf)"
      "fst (Promise_all (map (createFile w) files)) = Inl error"
  | (written) r rest where
      "main_try w args = (r, evc @ [Mkdir pon, Mkdir src] @ evf @ snd (setExecutePermission w script) @ rest)"
      "fst (Promise_all (map (createFile w) files)) = Inr ()"
      "\<forall>e\<in>set rest. \<exists>s. e = ConsoleLog s"
    by blast
  then show ?thesis
  proof cases
    case mkdir_failed
    then have "trace (main w args) = started # evc @ ev @
        [ConsoleError ([0xD83D, 0xDCA5]
           @ js '' An error occurred during setup. Please check the logs above.'') error]"
      using False by (simp add: main_def started_def)
    with mkdir_failed(2) evc show ?thesis
      by (auto simp add: started_def)
  next
    case write_failed
    then have run: "trace (main w args) = started # evc @ [Mkdir pon, Mkdir src] @ evf @
        [ConsoleError ([0xD83D, 0xDCA5]
           @ js '' An error occurred during setup. Please check the logs above.'') error]"
      "exit_code (main w args) = 1"
      using False by (simp_all add: main_def started_def)
    with evc evf_cmd show ?thesis
      by (auto simp add: started_def)
  next
    case written
    from written(2) have ok: "\<forall>f\<in>set files. Deno_writeTextFile w (name f) (content f) = None"
      by (simp add: Promise_all_result)
    obtain outcome where chmod: "snd (setExecutePermission w script) =
        [ConsoleLog ([0x2139, 0xFE0F] @ js '' Setting execute permission for '' @ script @ js ''...''),
         Command (js ''chmod'') [js ''+x'', script], outcome]"
      and outcome: "\<And>c a. outcome \<noteq> Command c a" "\<And>p d. outcome \<noteq> WriteTextFile p d"
      using setExecutePermission_events [of w script] by blast
    define before where "before = started # evc @ [Mkdir pon, Mkdir src] @ evf @
      [ConsoleLog ([0x2139, 0xFE0F] @ js '' Setting execute permission for '' @ script @ js ''...'')]"
    obtain tail where run: "trace (main w args) =
        before @ Command (js ''chmod'') [js ''+x'', script] # outcome # tail"
      and tail: "\<forall>e\<in>set tail. \<exists>s. e = ConsoleLog s \<or> (\<exists>error. e = ConsoleError s error)"
      using False written(1,3) chmod
      by (cases r) (auto simp add: main_def started_def before_def)
    have before_cmd: "Command c a \<notin> set before" for c a
      using evc evf_cmd by (simp add: before_def started_def)
    have failed: ?failed
    proof (intro impI, elim conjE)
      assume "WriteTextFile path data \<in> set (trace (main w args))"
        and fails: "Deno_writeTextFile w path data \<noteq> None"
      then have "WriteTextFile path data \<in> set evf"
        using evc outcome(2) [of path data] tail by (auto simp add: run before_def started_def)
      then obtain f where "f \<in> set files" "name f = path" "content f = data"
        by (auto simp add: evf_def Promise_all_WriteTextFile)
      with ok fails show "exit_code (main w args) = 1
          \<and> (\<forall>cmd argv. Command cmd argv \<notin> set (trace (main w args)))"
        by auto
    qed
    have chmod: ?chmod
    proof
      assume "Command cmd argv \<in> set (trace (main w args))"
      then have this_one: "cmd = js ''chmod''" "argv = [js ''+x'', script]"
        using before_cmd outcome(1) [of cmd argv] tail by (auto simp add: run)
      have "WriteTextFile script initPluginsScriptTemplate \<in> set before"
        using script_file by (force simp add: before_def evf_def Promise_all_WriteTextFile)
      moreover have "ConsoleLog ([0x2705] @ js '' Successfully created '' @ script) \<in> set before"
        using Promise_all_created [OF script_file ok]
        by (auto simp add: before_def evf_def)
      ultimately show "cmd = js ''chmod''
        \<and> argv = [js ''+x'',
             path_join w [projectDir (fst (collectUserConfig w args)), js ''.pon'',
               js ''init-plugins.sh'']]
        \<and> (\<forall>f\<in>set (filesToCreate w (fst (collectUserConfig w args))).
              Deno_writeTextFile w (name f) (content f) = None)
        \<and> (\<exists>before after.
              trace (main w args) = before @ Command cmd argv # after
              \<and> WriteTextFile
                   (path_join w [projectDir (fst (collectUserConfig w args)), js ''.pon'',
                      js ''init-plugins.sh''])
                   initPluginsScriptTemplate \<in> set before
              \<and> ConsoleLog ([0x2705] @ js '' Successfully created '' @
                   path_join w [projectDir (fst (collectUserConfig w args)), js ''.pon'',
                     js ''init-plugins.sh'']) \<in> set before
              \<and> (\<forall>c a. Command c a \<notin> set before))"
        using this_one ok run before_cmd
        unfolding script_def [symmetric] cfg_def [symmetric] files_def [symmetric]
        by blast
    qed
    from failed chmod show ?thesis ..
  qed
qed

theorem failed_write_stops_before_chmod_witness:
  "(WriteTextFile (js ''/home/dev/site/.pon/uploads.ini'') uploadsIniTemplate
        \<in> set (trace (main read_only_uploads no_args))
      \<and> Deno_writeTextFile read_only_uploads (js ''/home/dev/site/.pon/uploads.ini'')
          uploadsIniTemplate \<noteq> None
      \<and> exit_code (main read_only_uploads no_args) = 1
      \<and> (\<forall>cmd argv. Command cmd argv \<notin> set (trace (main read_only_uploads no_args))))
   \<and> (Command (js ''chmod'') [js ''+x'', js ''/home/dev/site/.pon/init-plugins.sh'']
        \<in> set (trace (main site no_args))
      \<and> list_all (\<lambda>f. Deno_writeTextFile site (name f) (content f) = None)
            (filesToCreate site (fst (collectUserConfig site no_args)))
      \<and> (\<exists>before after.
            trace (main site no_args)
              = before @ Command (js ''chmod'') [js ''+x'', js ''/home/dev/site/.pon/init-plugins.sh'']
                  # after
            \<and> WriteTextFile (js ''/home/dev/site/.pon/init-plugins.sh'') initPluginsScriptTemplate
                \<in> set before
            \<and> (\<forall>c a. Command c a \<notin> set before)))"
proof -
  have failing:
    "WriteTextFile (js ''/home/dev/site/.pon/uploads.ini'') uploadsIniTemplate
       \<in> set (trace (main read_only_uploads no_args))"
    "Deno_writeTextFile read_only_uploads (js ''/home/dev/site/.pon/uploads.ini'')
       uploadsIniTemplate \<noteq> None"
    by (simp_all add: run_defs read_only_uploads_def site_paths site_calls js_inject)
  have script: "path_join site [projectDir (fst (collectUserConfig site no_args)), js ''.pon'',
      js ''init-plugins.sh''] = js ''/home/dev/site/.pon/init-plugins.sh''"
    by (simp add: collectUserConfig_fields no_args_def site_paths)
  have running:
    "Command (js ''chmod'') [js ''+x'', js ''/home/dev/site/.pon/init-plugins.sh'']
       \<in> set (trace (main site no_args))"
    by (simp add: run_defs site_paths site_calls)
  from failing
    failed_write_stops_before_chmod
      [where w = read_only_uploads and args = no_args
         and path = "js ''/home/dev/site/.pon/uploads.ini''" and data = uploadsIniTemplate]
  have first: "exit_code (main read_only_uploads no_args) = 1
      \<and> (\<forall>cmd argv. Command cmd argv \<notin> set (trace (main read_only_uploads no_args)))"
    by blast
  from running
    failed_write_stops_before_chmod
      [where w = site and args = no_args and cmd = "js ''chmod''"
         and argv = "[js ''+x'', js ''/home/dev/site/.pon/init-plugins.sh'']"]
  have second: "list_all (\<lambda>f. Deno_writeTextFile site (name f) (content f) = None)
            (filesToCreate site (fst (collectUserConfig site no_args)))
      \<and> (\<exists>before after.
            trace (main site no_args)
              = before @ Command (js ''chmod'') [js ''+x'', js ''/home/dev/site/.pon/init-plugins.sh'']
                  # after
            \<and> WriteTextFile (js ''/home/dev/site/.pon/init-plugins.sh'') initPluginsScriptTemplate
                \<in> set before
            \<and> (\<forall>c a. Command c a \<notin> set before))"
    unfolding script list_all_iff by blast
  from failing running first second show ?thesis by blast
qed

text \<open>\<^bold>\<open>C9.\<close> With the help flag the program prints the usage text and ends with exit
  code 0; it creates no directory, writes no file and does not invoke \<^verbatim>\<open>chmod\<close>.\<close>

theorem help_has_no_side_effect:
  assumes "args_help args"
  shows "trace (main w args) = [ConsoleLog helpText] \<and> exit_code (main w args) = 0
    \<and> Mkdir path \<notin> set (trace (main w args))
    \<and> WriteTextFile path data \<notin> set (trace (main w args))
    \<and> Command cmd argv \<notin> set (trace (main w args))"
  using assms by (simp add: main_def showHelp_def)

theorem help_has_no_side_effect_witness:
  "args_help (no_args\<lparr>args_help := True, args_positional := [js ''blog'']\<rparr>)
   \<and> trace (main site (no_args\<lparr>args_help := True, args_positional := [js ''blog'']\<rparr>))
       = [ConsoleLog helpText]
   \<and> exit_code (main site (no_args\<lparr>args_help := True, args_positional := [js ''blog'']\<rparr>)) = 0"
  using help_has_no_side_effect
    [of "no_args\<lparr>args_help := True, args_positional := [js ''blog'']\<rparr>" site]
  by simp

end
